theory Spec2Isabelle
  imports Main "HOL-Library.Word" "HOL-Library.Multiset"
begin

section \<open>Segment option builders (tools/segments.ts)\<close>

text \<open>
  A JavaScript string is modelled by \<^typ>\<open>string\<close>, one \<^typ>\<open>char\<close> per code unit, so
  that \<^const>\<open>length\<close> is the \<^verbatim>\<open>.length\<close> of the source. An optional argument or
  field is an \<^typ>\<open>'a option\<close>, \<^const>\<open>None\<close> being \<^verbatim>\<open>undefined\<close>.
\<close>

datatype SegmentType = EXIF | GPS | XMP | ICC | IPTC | JFIF | IHDR

text \<open>
  The interface \<^verbatim>\<open>ExifrOptions\<close>. Every builder of the file sets the six segment flags,
  so they are plain booleans; \<^verbatim>\<open>multiSegment\<close> and \<^verbatim>\<open>pick\<close> are set by one builder
  each and absent from the objects the others return.
\<close>

record ExifrOptions =
  tiff :: bool
  xmp :: bool
  icc :: bool
  iptc :: bool
  jfif :: bool
  ihdr :: bool
  multiSegment :: "bool option"
  pick :: "string list option"

text \<open>The body of the callback given to \<^verbatim>\<open>segments.forEach\<close> in \<^verbatim>\<open>buildOptions\<close>.\<close>

fun enableSegment :: "ExifrOptions \<Rightarrow> SegmentType \<Rightarrow> ExifrOptions" where
  "enableSegment options EXIF = options\<lparr>tiff := True\<rparr>"
| "enableSegment options GPS = options\<lparr>tiff := True\<rparr>"
| "enableSegment options XMP = options\<lparr>xmp := True\<rparr>"
| "enableSegment options ICC = options\<lparr>icc := True\<rparr>"
| "enableSegment options IPTC = options\<lparr>iptc := True\<rparr>"
| "enableSegment options JFIF = options\<lparr>jfif := True\<rparr>"
| "enableSegment options IHDR = options\<lparr>ihdr := True\<rparr>"

definition allEnabled :: ExifrOptions where
  "allEnabled = \<lparr>tiff = True, xmp = True, icc = True, iptc = True, jfif = True, ihdr = True,
     multiSegment = None, pick = None\<rparr>"

definition allDisabled :: ExifrOptions where
  "allDisabled = \<lparr>tiff = False, xmp = False, icc = False, iptc = False, jfif = False,
     ihdr = False, multiSegment = None, pick = None\<rparr>"

text \<open>
  \<^verbatim>\<open>buildOptions(segments?)\<close>: \<^verbatim>\<open>!segments || segments.length === 0\<close> returns the
  all-enabled object; otherwise the loop runs over the list from left to right, starting
  from the all-disabled object.
\<close>

definition buildOptions :: "SegmentType list option \<Rightarrow> ExifrOptions" where
  "buildOptions segments =
     (case segments of
        None \<Rightarrow> allEnabled
      | Some segs \<Rightarrow> if length segs = 0 then allEnabled else foldl enableSegment allDisabled segs)"

text \<open>
  \<^verbatim>\<open>buildExifOptions(pick?)\<close>: the spread \<^verbatim>\<open>...(pick ? { pick } : {})\<close> tests the
  truthiness of \<^verbatim>\<open>pick\<close>; every array, the empty one too, is truthy, and only
  \<^verbatim>\<open>undefined\<close> is not.
\<close>

definition buildExifOptions :: "string list option \<Rightarrow> ExifrOptions" where
  "buildExifOptions pick_arg =
     (let base = \<lparr>tiff = True, xmp = False, icc = False, iptc = False, jfif = False,
                  ihdr = False, multiSegment = None, pick = None\<rparr>
      in case pick_arg of
           None \<Rightarrow> base
         | Some p \<Rightarrow> base\<lparr>pick := Some p\<rparr>)"

text \<open>\<^verbatim>\<open>buildXmpOptions(extended?)\<close>: \<^verbatim>\<open>multiSegment: extended ?? false\<close>.\<close>

definition buildXmpOptions :: "bool option \<Rightarrow> ExifrOptions" where
  "buildXmpOptions extended =
     \<lparr>tiff = False, xmp = True, icc = False, iptc = False, jfif = False, ihdr = False,
      multiSegment = Some (case extended of None \<Rightarrow> False | Some e \<Rightarrow> e), pick = None\<rparr>"

text \<open>
  \<^verbatim>\<open>buildSegmentOptions(segment)\<close> takes one of the four names \<^verbatim>\<open>'ICC' | 'IPTC' | 'JFIF' | 'IHDR'\<close>,
  lower-cases it and sets the flag of that name.
\<close>

datatype SingleSegment = OnlyICC | OnlyIPTC | OnlyJFIF | OnlyIHDR

fun segmentName :: "SingleSegment \<Rightarrow> string" where
  "segmentName OnlyICC = ''ICC''"
| "segmentName OnlyIPTC = ''IPTC''"
| "segmentName OnlyJFIF = ''JFIF''"
| "segmentName OnlyIHDR = ''IHDR''"

definition lowerChar :: "char \<Rightarrow> char" where
  "lowerChar c =
     (if (65::nat) \<le> of_char c \<and> of_char c \<le> (90::nat) then char_of (of_char c + (32::nat)) else c)"

definition toLowerCase :: "string \<Rightarrow> string" where
  "toLowerCase s = map lowerChar s"

definition setFlag :: "string \<Rightarrow> ExifrOptions \<Rightarrow> ExifrOptions" where
  "setFlag key options =
     (if key = ''icc'' then options\<lparr>icc := True\<rparr>
      else if key = ''iptc'' then options\<lparr>iptc := True\<rparr>
      else if key = ''jfif'' then options\<lparr>jfif := True\<rparr>
      else if key = ''ihdr'' then options\<lparr>ihdr := True\<rparr>
      else options)"

definition buildSegmentOptions :: "SingleSegment \<Rightarrow> ExifrOptions" where
  "buildSegmentOptions segment = setFlag (toLowerCase (segmentName segment)) allDisabled"

section \<open>Byte sources (tools/loaders.ts)\<close>

type_synonym bytes = "8 word list"

text \<open>
  A thrown value: \<open>JsError m\<close> is an \<^verbatim>\<open>instanceof Error\<close> with message \<open>m\<close>;
  \<open>JsOther t\<close> is any other thrown value, \<open>t\<close> being its \<^verbatim>\<open>String(...)\<close> rendering.
  A call that may throw or reject returns \<open>js_exn + 'a\<close>, \<^const>\<open>Inl\<close> being the throw.
\<close>

datatype js_exn = JsError string | JsOther string

text \<open>
  \<^verbatim>\<open>ImageSourceType\<close> (types/image.ts): the tag and four optional string fields. The tag
  is one of the four literals, so the \<^verbatim>\<open>default:\<close> branch of \<^verbatim>\<open>loadImage\<close> has no
  input.
\<close>

datatype SourceKind = Path | Url | Base64 | Buffer

record ImageSourceType =
  kind :: SourceKind
  path :: "string option"
  url :: "string option"
  data :: "string option"
  buffer :: "string option"

text \<open>What \<^verbatim>\<open>loadImage\<close> reads of the \<^verbatim>\<open>Response\<close> that \<^verbatim>\<open>fetch\<close> resolves to.\<close>

record FetchResponse =
  ok :: bool
  status :: nat
  statusText :: string
  arrayBuffer :: "js_exn + bytes"

text \<open>
  The platform functions the module calls, taken as parameters:
  \<^verbatim>\<open>fs.promises.readFile\<close>, \<^verbatim>\<open>fileURLToPath\<close>, \<^verbatim>\<open>fetch\<close>,
  \<^verbatim>\<open>Buffer.from(s, 'base64')\<close> on a string (it returns a buffer for every string) and on
  \<^verbatim>\<open>undefined\<close> (it throws), and \<^verbatim>\<open>buf.toString('base64')\<close>.
\<close>

record Runtime =
  readFile :: "string \<Rightarrow> js_exn + bytes"
  fileURLToPath :: "string \<Rightarrow> js_exn + string"
  fetch :: "string \<Rightarrow> js_exn + FetchResponse"
  base64Decode :: "string \<Rightarrow> bytes"
  bufferFromUndefined :: js_exn
  base64Encode :: "bytes \<Rightarrow> string"

text \<open>\<^verbatim>\<open>s.startsWith(p)\<close>.\<close>

definition startsWith :: "string \<Rightarrow> string \<Rightarrow> bool" where
  "startsWith s p = (take (length p) s = p)"

text \<open>
  \<^verbatim>\<open>s.split(sep)\<close> for a one-character separator: the pieces between the separators, in
  order; a string without the separator is its only piece.
\<close>

fun splitString :: "string \<Rightarrow> char \<Rightarrow> string list" where
  "splitString [] sep = ['''']"
| "splitString (c # cs) sep =
     (if c = sep then [] # splitString cs sep
      else (case splitString cs sep of
              [] \<Rightarrow> [c # []]
            | piece # pieces \<Rightarrow> (c # piece) # pieces))"

text \<open>\<^verbatim>\<open>xs[i]\<close>: \<^verbatim>\<open>undefined\<close> beyond the end of the array.\<close>

definition atIndex :: "'a list \<Rightarrow> nat \<Rightarrow> 'a option" where
  "atIndex xs i = (if i < length xs then Some (xs ! i) else None)"

text \<open>A status code in a template literal: its decimal digits.\<close>

fun number_toString :: "nat \<Rightarrow> string" where
  "number_toString n =
     (if n < 10 then [char_of (48 + n)]
      else number_toString (n div 10) @ [char_of (48 + n mod 10)])"

declare number_toString.simps [simp del]

text \<open>\<^verbatim>\<open>Buffer.from(arg, 'base64')\<close>, where \<^verbatim>\<open>arg\<close> may be \<^verbatim>\<open>undefined\<close>.\<close>

definition bufferFromBase64 :: "Runtime \<Rightarrow> string option \<Rightarrow> js_exn + bytes" where
  "bufferFromBase64 rt arg =
     (case arg of None \<Rightarrow> Inl (bufferFromUndefined rt) | Some s \<Rightarrow> Inr (base64Decode rt s))"

text \<open>The messages of the \<^verbatim>\<open>throw new Error(...)\<close> statements of \<^verbatim>\<open>loadImage\<close>.\<close>

definition pathRequired :: string where
  \<open>pathRequired = ''Path is required for kind="path"''\<close>

definition urlRequired :: string where
  \<open>urlRequired = ''URL is required for kind="url"''\<close>

definition dataRequired :: string where
  \<open>dataRequired = ''Data is required for kind="base64"''\<close>

definition bufferRequired :: string where
  \<open>bufferRequired = ''Buffer is required for kind="buffer"''\<close>

definition payloadTooLarge :: string where
  "payloadTooLarge = ''PayloadTooLarge: Base64 data exceeds 30MB limit''"

definition fetchFailed :: "FetchResponse \<Rightarrow> string" where
  "fetchFailed response =
     ''Failed to fetch URL: '' @ number_toString (status response) @ '' '' @ statusText response"

text \<open>\<^verbatim>\<open>const base64Data = src.data.split(',')[1]\<close>.\<close>

definition dataUriPayload :: "string \<Rightarrow> string option" where
  "dataUriPayload d = atIndex (splitString d (CHR '','')) 1"

text \<open>
  The \<^verbatim>\<open>try\<close> block of \<^verbatim>\<open>loadImage\<close>. \<^verbatim>\<open>!src.path\<close> holds for the absent field and
  for the empty string.
\<close>

definition loadImageBody :: "Runtime \<Rightarrow> ImageSourceType \<Rightarrow> js_exn + bytes" where
  "loadImageBody rt src =
     (case kind src of
        Path \<Rightarrow>
          (case path src of
             None \<Rightarrow> Inl (JsError pathRequired)
           | Some p \<Rightarrow>
               if p = [] then Inl (JsError pathRequired)
               else readFile rt p)
      | Url \<Rightarrow>
          (case url src of
             None \<Rightarrow> Inl (JsError urlRequired)
           | Some u \<Rightarrow>
               if u = [] then Inl (JsError urlRequired)
               else if startsWith u ''file://'' then
                 (case fileURLToPath rt u of
                    Inl e \<Rightarrow> Inl e
                  | Inr filePath \<Rightarrow> readFile rt filePath)
               else
                 (case fetch rt u of
                    Inl e \<Rightarrow> Inl e
                  | Inr response \<Rightarrow>
                      if \<not> ok response then Inl (JsError (fetchFailed response))
                      else arrayBuffer response))
      | Base64 \<Rightarrow>
          (case data src of
             None \<Rightarrow> Inl (JsError dataRequired)
           | Some d \<Rightarrow>
               if d = [] then Inl (JsError dataRequired)
               else if length d > 40000000 then Inl (JsError payloadTooLarge)
               else if startsWith d ''data:'' then bufferFromBase64 rt (dataUriPayload d)
               else bufferFromBase64 rt (Some d))
      | Buffer \<Rightarrow>
          (case buffer src of
             None \<Rightarrow> Inl (JsError bufferRequired)
           | Some b \<Rightarrow>
               if b = [] then Inl (JsError bufferRequired)
               else bufferFromBase64 rt (Some b)))"

text \<open>
  The \<^verbatim>\<open>catch\<close> block: an \<^verbatim>\<open>Error\<close> is thrown again with the prefixed message, any
  other value as it is.
\<close>

definition wrapLoadFailure :: "js_exn + 'a \<Rightarrow> js_exn + 'a" where
  "wrapLoadFailure r =
     (case r of
        Inl (JsError message) \<Rightarrow> Inl (JsError (''Failed to load image: '' @ message))
      | Inl (JsOther v) \<Rightarrow> Inl (JsOther v)
      | Inr b \<Rightarrow> Inr b)"

definition loadImage :: "Runtime \<Rightarrow> ImageSourceType \<Rightarrow> js_exn + bytes" where
  "loadImage rt src = wrapLoadFailure (loadImageBody rt src)"

text \<open>
  In the words of the specification, not of the source: the substring after the first
  comma of a string.
\<close>

definition afterFirstComma :: "string \<Rightarrow> string" where
  "afterFirstComma s = tl (dropWhile (\<lambda>c. c \<noteq> CHR '','') s)"

section \<open>Tools (tools/index.ts)\<close>

text \<open>
  The values the parser returns and the tools serialise. Numbers are integers here
  (orientation values); \<^verbatim>\<open>NaN\<close>, falsy as \<open>0\<close> is, is not represented.
\<close>

datatype jsval =
    JUndefined
  | JNull
  | JBool bool
  | JNumber int
  | JString string
  | JArray "jsval list"
  | JObject "(string \<times> jsval) list"

fun truthy :: "jsval \<Rightarrow> bool" where
  "truthy JUndefined = False"
| "truthy JNull = False"
| "truthy (JBool b) = b"
| "truthy (JNumber n) = (n \<noteq> 0)"
| "truthy (JString s) = (s \<noteq> [])"
| "truthy (JArray xs) = True"
| "truthy (JObject kvs) = True"

text \<open>
  \<^verbatim>\<open>Object.keys(v)\<close>. The tools call it behind \<^verbatim>\<open>!meta ||\<close>, hence never on
  \<^verbatim>\<open>undefined\<close> or \<^verbatim>\<open>null\<close>, where it throws.
\<close>

fun objectKeys :: "jsval \<Rightarrow> string list" where
  "objectKeys (JObject kvs) = remdups (map fst kvs)"
| "objectKeys (JArray xs) = map number_toString [0..<length xs]"
| "objectKeys (JString s) = map number_toString [0..<length s]"
| "objectKeys v = []"

text \<open>
  \<^verbatim>\<open>v[key]\<close> for the keys the tools read (\<^verbatim>\<open>xmp\<close>, \<^verbatim>\<open>icc\<close>, \<^verbatim>\<open>iptc\<close>,
  \<^verbatim>\<open>jfif\<close>, \<^verbatim>\<open>ihdr\<close>), which only an object can have; read behind \<^verbatim>\<open>!meta ||\<close> too.
\<close>

fun getProperty :: "jsval \<Rightarrow> string \<Rightarrow> jsval" where
  "getProperty (JObject kvs) key = (case map_of kvs key of None \<Rightarrow> JUndefined | Some v \<Rightarrow> v)"
| "getProperty v key = JUndefined"

text \<open>The five entry points of the parsing library that the tools call.\<close>

record Exifr =
  parse :: "bytes \<Rightarrow> ExifrOptions \<Rightarrow> js_exn + jsval"
  orientation :: "bytes \<Rightarrow> js_exn + jsval"
  rotation :: "bytes \<Rightarrow> js_exn + jsval"
  gps :: "bytes \<Rightarrow> js_exn + jsval"
  thumbnail :: "bytes \<Rightarrow> js_exn + bytes option"

text \<open>
  A response \<^verbatim>\<open>{ content: [{ type: "text", text }], isError? }\<close>: the text of its one
  content item, and \<^verbatim>\<open>isError\<close>, which a success response does not have.
  \<open>stringify\<close> is \<^verbatim>\<open>JSON.stringify(data, null, 2)\<close>.
\<close>

record McpResponse =
  content_text :: string
  isError :: "bool option"

definition createSuccessResponse :: "(jsval \<Rightarrow> string) \<Rightarrow> jsval \<Rightarrow> McpResponse" where
  "createSuccessResponse stringify d =
     \<lparr>content_text = (case d of JString s \<Rightarrow> s | _ \<Rightarrow> stringify d), isError = None\<rparr>"

definition createErrorResponse :: "string \<Rightarrow> McpResponse" where
  "createErrorResponse message = \<lparr>content_text = message, isError = Some True\<rparr>"

text \<open>\<^verbatim>\<open>error instanceof Error ? error.message : String(error)\<close>.\<close>

fun errorText :: "js_exn \<Rightarrow> string" where
  "errorText (JsError message) = message"
| "errorText (JsOther v) = v"

text \<open>
  Sequencing of two awaited calls inside a \<^verbatim>\<open>try\<close> block, and the \<^verbatim>\<open>catch\<close> block
  that every tool has, with its own prefix.
\<close>

definition bindResult :: "js_exn + 'a \<Rightarrow> ('a \<Rightarrow> js_exn + 'b) \<Rightarrow> js_exn + 'b" where
  "bindResult r f = (case r of Inl e \<Rightarrow> Inl e | Inr x \<Rightarrow> f x)"

definition catchAs :: "string \<Rightarrow> js_exn + McpResponse \<Rightarrow> McpResponse" where
  "catchAs pre r =
     (case r of Inl e \<Rightarrow> createErrorResponse (pre @ errorText e) | Inr response \<Rightarrow> response)"

text \<open>The platform and the parser that a tool runs against.\<close>

record Env =
  runtime :: Runtime
  exifr :: Exifr
  JSON_stringify :: "jsval \<Rightarrow> string"

definition readMetadataTool :: "Env \<Rightarrow> ImageSourceType \<Rightarrow> SegmentType list option \<Rightarrow> McpResponse" where
  "readMetadataTool env img segments =
     catchAs ''Error reading metadata: ''
       (bindResult (loadImage (runtime env) img) (\<lambda>buf.
        bindResult (parse (exifr env) buf (buildOptions segments)) (\<lambda>meta.
          Inr (if \<not> truthy meta \<or> length (objectKeys meta) = 0
               then createErrorResponse ''No metadata found in image''
               else createSuccessResponse (JSON_stringify env) meta))))"

definition readExifTool :: "Env \<Rightarrow> ImageSourceType \<Rightarrow> string list option \<Rightarrow> McpResponse" where
  "readExifTool env img tags =
     catchAs ''Error reading EXIF data: ''
       (bindResult (loadImage (runtime env) img) (\<lambda>buf.
        bindResult (parse (exifr env) buf (buildExifOptions tags)) (\<lambda>meta.
          Inr (if \<not> truthy meta \<or> length (objectKeys meta) = 0
               then createErrorResponse ''No EXIF metadata found in image''
               else createSuccessResponse (JSON_stringify env) meta))))"

definition readXmpTool :: "Env \<Rightarrow> ImageSourceType \<Rightarrow> bool option \<Rightarrow> McpResponse" where
  "readXmpTool env img extended =
     catchAs ''Error reading XMP data: ''
       (bindResult (loadImage (runtime env) img) (\<lambda>buf.
        bindResult (parse (exifr env) buf (buildXmpOptions extended)) (\<lambda>meta.
          Inr (if \<not> truthy meta \<or> \<not> truthy (getProperty meta ''xmp'')
               then createErrorResponse ''No XMP metadata found in image''
               else createSuccessResponse (JSON_stringify env) meta))))"

text \<open>The four tools \<^verbatim>\<open>read-icc\<close>, \<^verbatim>\<open>read-iptc\<close>, \<^verbatim>\<open>read-jfif\<close>, \<^verbatim>\<open>read-ihdr\<close>.\<close>

definition segmentTool :: "Env \<Rightarrow> SingleSegment \<Rightarrow> ImageSourceType \<Rightarrow> McpResponse" where
  "segmentTool env segment img =
     catchAs (''Error reading '' @ segmentName segment @ '' data: '')
       (bindResult (loadImage (runtime env) img) (\<lambda>buf.
        bindResult (parse (exifr env) buf (buildSegmentOptions segment)) (\<lambda>meta.
          let segmentKey = toLowerCase (segmentName segment)
          in Inr (if \<not> truthy meta \<or> \<not> truthy (getProperty meta segmentKey)
                  then createErrorResponse
                         (''No '' @ segmentName segment @ '' metadata found in image'')
                  else createSuccessResponse (JSON_stringify env) meta))))"

definition orientationTool :: "Env \<Rightarrow> ImageSourceType \<Rightarrow> McpResponse" where
  "orientationTool env img =
     catchAs ''Error reading orientation: ''
       (bindResult (loadImage (runtime env) img) (\<lambda>buf.
        bindResult (orientation (exifr env) buf) (\<lambda>v.
          Inr (if v = JUndefined
               then createErrorResponse ''No orientation metadata found in image''
               else createSuccessResponse (JSON_stringify env)
                      (JObject [(''orientation'', v)])))))"

definition rotationInfoTool :: "Env \<Rightarrow> ImageSourceType \<Rightarrow> McpResponse" where
  "rotationInfoTool env img =
     catchAs ''Error reading rotation info: ''
       (bindResult (loadImage (runtime env) img) (\<lambda>buf.
        bindResult (rotation (exifr env) buf) (\<lambda>v.
          Inr (if \<not> truthy v
               then createErrorResponse ''No rotation metadata found in image''
               else createSuccessResponse (JSON_stringify env) v))))"

text \<open>\<^verbatim>\<open>gps-coordinates\<close> has no test of the result: \<^verbatim>\<open>createSuccessResponse(gps || null)\<close>.\<close>

definition gpsCoordinatesTool :: "Env \<Rightarrow> ImageSourceType \<Rightarrow> McpResponse" where
  "gpsCoordinatesTool env img =
     catchAs ''Error reading GPS data: ''
       (bindResult (loadImage (runtime env) img) (\<lambda>buf.
        bindResult (gps (exifr env) buf) (\<lambda>v.
          Inr (createSuccessResponse (JSON_stringify env) (if truthy v then v else JNull)))))"

text \<open>
  \<^verbatim>\<open>thumbnail\<close>: the parser returns the bytes or \<^verbatim>\<open>undefined\<close>; \<open>asUrl\<close> is the
  optional argument \<^verbatim>\<open>url\<close>.
\<close>

definition thumbnailTool :: "Env \<Rightarrow> ImageSourceType \<Rightarrow> bool option \<Rightarrow> McpResponse" where
  "thumbnailTool env img asUrl =
     catchAs ''Error extracting thumbnail: ''
       (bindResult (loadImage (runtime env) img) (\<lambda>buf.
        bindResult (thumbnail (exifr env) buf) (\<lambda>t.
          Inr (case t of
                 None \<Rightarrow> createErrorResponse ''No thumbnail found in image''
               | Some thumb \<Rightarrow>
                   if asUrl = None \<or> asUrl = Some False then
                     createSuccessResponse (JSON_stringify env)
                       (JObject [(''dataUrl'',
                          JString (''data:'' @ ''image/jpeg'' @ '';base64,'' @
                                   base64Encode (runtime env) thumb))])
                   else
                     createSuccessResponse (JSON_stringify env)
                       (JObject [(''base64'', JString (base64Encode (runtime env) thumb))])))))"

section \<open>A sample environment\<close>

text \<open>
  A platform and a parser in the manner of the mocks of the repository's tests: one file
  \<^verbatim>\<open>sample.jpg\<close>, a \<^verbatim>\<open>fetch\<close> that answers \<^verbatim>\<open>404 Not Found\<close>, and a parser that finds
  nothing in the image. Its base64 decoder hands back the code units it was given, so that
  a result shows which string reached the decoder.
\<close>

definition exampleRuntime :: Runtime where
  "exampleRuntime =
     \<lparr>readFile = (\<lambda>p. if p = ''sample.jpg'' then Inr [0xFF, 0xD8, 0xFF, 0xD9]
                       else Inl (JsError (''ENOENT: no such file or directory, open '' @ p))),
      fileURLToPath = (\<lambda>u. if startsWith u ''file://'' then Inr (drop 7 u)
                            else Inl (JsError ''The URL must be of scheme file'')),
      fetch = (\<lambda>u. Inr \<lparr>ok = False, status = 404, statusText = ''Not Found'',
                         arrayBuffer = Inr []\<rparr>),
      base64Decode = (\<lambda>s. map (\<lambda>c. of_nat (of_char c)) s),
      bufferFromUndefined = JsError ''The first argument must be of type string'',
      base64Encode = (\<lambda>b. map (\<lambda>w. char_of (unat w)) b)\<rparr>"

definition exampleExifr :: Exifr where
  "exampleExifr =
     \<lparr>parse = (\<lambda>buf opts. Inr (JObject [])),
      orientation = (\<lambda>buf. Inr JUndefined),
      rotation = (\<lambda>buf. Inr JUndefined),
      gps = (\<lambda>buf. Inr JNull),
      thumbnail = (\<lambda>buf. Inr None)\<rparr>"

definition exampleEnv :: Env where
  "exampleEnv =
     \<lparr>runtime = exampleRuntime, exifr = exampleExifr,
      JSON_stringify = (\<lambda>v. if v = JNull then ''null'' else ''{}'')\<rparr>"

definition sampleImage :: ImageSourceType where
  "sampleImage = \<lparr>kind = Path, path = Some ''sample.jpg'', url = None, data = None, buffer = None\<rparr>"

section \<open>Properties of the option builders\<close>

text \<open>One step of the loop, and the whole loop: a flag is on afterwards if it was on
  before or one of its segments is in the list.\<close>

lemma enableSegment_flags:
  "enableSegment opts s =
     opts\<lparr>tiff := tiff opts \<or> s = EXIF \<or> s = GPS, xmp := xmp opts \<or> s = XMP,
          icc := icc opts \<or> s = ICC, iptc := iptc opts \<or> s = IPTC,
          jfif := jfif opts \<or> s = JFIF, ihdr := ihdr opts \<or> s = IHDR\<rparr>"
  by (cases s) simp_all

lemma foldl_enableSegment_flags:
  "foldl enableSegment opts segs =
     opts\<lparr>tiff := tiff opts \<or> EXIF \<in> set segs \<or> GPS \<in> set segs,
          xmp := xmp opts \<or> XMP \<in> set segs,
          icc := icc opts \<or> ICC \<in> set segs,
          iptc := iptc opts \<or> IPTC \<in> set segs,
          jfif := jfif opts \<or> JFIF \<in> set segs,
          ihdr := ihdr opts \<or> IHDR \<in> set segs\<rparr>"
proof (induction segs arbitrary: opts)
  case Nil
  show ?case by simp
next
  case (Cons s segs)
  show ?case
    unfolding foldl_Cons Cons.IH enableSegment_flags [of opts s]
    by (auto intro!: ExifrOptions.equality)
qed

text \<open>The flags of \<^const>\<open>buildOptions\<close> depend on the set of requested segments only.\<close>

lemma buildOptions_flags:
  "buildOptions (Some segs) =
     \<lparr>tiff = (segs = [] \<or> EXIF \<in> set segs \<or> GPS \<in> set segs),
      xmp = (segs = [] \<or> XMP \<in> set segs),
      icc = (segs = [] \<or> ICC \<in> set segs),
      iptc = (segs = [] \<or> IPTC \<in> set segs),
      jfif = (segs = [] \<or> JFIF \<in> set segs),
      ihdr = (segs = [] \<or> IHDR \<in> set segs),
      multiSegment = None, pick = None\<rparr>"
  by (simp add: buildOptions_def allEnabled_def allDisabled_def foldl_enableSegment_flags)

lemma buildOptions_set_cong:
  assumes "set xs = set ys"
  shows "buildOptions (Some xs) = buildOptions (Some ys)"
proof -
  from assms have "(xs = []) = (ys = [])"
    by (metis set_empty)
  with assms show ?thesis by (simp add: buildOptions_flags)
qed

text \<open>The single-segment builder enables the flag of its segment and no other.\<close>

lemma toLowerCase_segmentName:
  "toLowerCase ''ICC'' = ''icc''"
  "toLowerCase ''IPTC'' = ''iptc''"
  "toLowerCase ''JFIF'' = ''jfif''"
  "toLowerCase ''IHDR'' = ''ihdr''"
  by code_simp+

lemma buildSegmentOptions_flags:
  "buildSegmentOptions OnlyICC = allDisabled\<lparr>icc := True\<rparr>"
  "buildSegmentOptions OnlyIPTC = allDisabled\<lparr>iptc := True\<rparr>"
  "buildSegmentOptions OnlyJFIF = allDisabled\<lparr>jfif := True\<rparr>"
  "buildSegmentOptions OnlyIHDR = allDisabled\<lparr>ihdr := True\<rparr>"
  by (simp_all add: buildSegmentOptions_def toLowerCase_segmentName setFlag_def)

text \<open>
  C5: \<^verbatim>\<open>buildOptions([])\<close> and \<^verbatim>\<open>buildOptions()\<close> both return the object with the six
  flags \<^verbatim>\<open>tiff, xmp, icc, iptc, jfif, ihdr\<close> true (and nothing else), and so does
  \<^verbatim>\<open>buildOptions(['EXIF','GPS','XMP','ICC','IPTC','JFIF','IHDR'])\<close>: the three results are equal.
\<close>

theorem buildOptions_all_enabled:
  "buildOptions (Some []) =
     \<lparr>tiff = True, xmp = True, icc = True, iptc = True, jfif = True, ihdr = True,
      multiSegment = None, pick = None\<rparr> \<and>
   buildOptions None = buildOptions (Some []) \<and>
   buildOptions (Some [EXIF, GPS, XMP, ICC, IPTC, JFIF, IHDR]) = buildOptions (Some [])"
  by (simp add: buildOptions_def allEnabled_def allDisabled_def)

text \<open>
  C6: \<^verbatim>\<open>buildOptions(['EXIF'])\<close> and \<^verbatim>\<open>buildOptions(['GPS'])\<close> are the same object, with
  \<^verbatim>\<open>tiff\<close> true and the other five flags false; and for all lists of segments the result
  is the same for any reordering of the list (equal multisets) and for any duplication of
  entries (equal sets).
\<close>

theorem buildOptions_exif_gps_order_duplicates:
  "buildOptions (Some [EXIF]) = buildOptions (Some [GPS]) \<and>
   buildOptions (Some [EXIF]) =
     \<lparr>tiff = True, xmp = False, icc = False, iptc = False, jfif = False, ihdr = False,
      multiSegment = None, pick = None\<rparr> \<and>
   (\<forall>xs ys. mset xs = mset ys \<longrightarrow> buildOptions (Some xs) = buildOptions (Some ys)) \<and>
   (\<forall>xs ys. set xs = set ys \<longrightarrow> buildOptions (Some xs) = buildOptions (Some ys))"
proof -
  have perm: "buildOptions (Some xs) = buildOptions (Some ys)" if "mset xs = mset ys" for xs ys
    using that by (intro buildOptions_set_cong) (rule mset_eq_setD)
  have dup: "buildOptions (Some xs) = buildOptions (Some ys)" if "set xs = set ys" for xs ys
    using that by (rule buildOptions_set_cong)
  have one: "buildOptions (Some [EXIF]) = buildOptions (Some [GPS])"
    by (simp add: buildOptions_def allDisabled_def)
  have val: "buildOptions (Some [EXIF]) =
     \<lparr>tiff = True, xmp = False, icc = False, iptc = False, jfif = False, ihdr = False,
      multiSegment = None, pick = None\<rparr>"
    by (simp add: buildOptions_def allDisabled_def)
  from one val perm dup show ?thesis by blast
qed

theorem buildOptions_exif_gps_order_duplicates_witness:
  "mset [XMP, EXIF, ICC] = mset [ICC, XMP, EXIF] \<and>
   buildOptions (Some [XMP, EXIF, ICC]) = buildOptions (Some [ICC, XMP, EXIF]) \<and>
   set [XMP, EXIF, XMP, XMP] = set [EXIF, XMP] \<and>
   buildOptions (Some [XMP, EXIF, XMP, XMP]) = buildOptions (Some [EXIF, XMP])"
proof -
  have m: "mset [XMP, EXIF, ICC] = mset [ICC, XMP, EXIF]" by simp
  have s: "set [XMP, EXIF, XMP, XMP] = set [EXIF, XMP]" by auto
  from buildOptions_exif_gps_order_duplicates m s show ?thesis by blast
qed

text \<open>
  C7: \<^verbatim>\<open>buildExifOptions\<close> always returns \<^verbatim>\<open>tiff\<close> true and the other five flags false;
  given an allow-list it returns that list, unchanged, as \<^verbatim>\<open>pick\<close>, and given no argument
  the result has no \<^verbatim>\<open>pick\<close> field at all.
\<close>

theorem buildExifOptions_flags_and_pick:
  "tiff (buildExifOptions p) \<and> \<not> xmp (buildExifOptions p) \<and> \<not> icc (buildExifOptions p) \<and>
   \<not> iptc (buildExifOptions p) \<and> \<not> jfif (buildExifOptions p) \<and> \<not> ihdr (buildExifOptions p) \<and>
   pick (buildExifOptions (Some tags)) = Some tags \<and>
   pick (buildExifOptions (Some [''Make''])) = Some [''Make''] \<and>
   pick (buildExifOptions None) = None"
  by (cases p) (simp_all add: buildExifOptions_def)

text \<open>
  C10: \<^verbatim>\<open>buildExifOptions([])\<close> returns an object that has \<^verbatim>\<open>pick: []\<close>; the field is
  left out for the absent argument only.
\<close>

theorem buildExifOptions_empty_pick:
  "buildExifOptions (Some []) =
     \<lparr>tiff = True, xmp = False, icc = False, iptc = False, jfif = False, ihdr = False,
      multiSegment = None, pick = Some []\<rparr> \<and>
   (pick (buildExifOptions p) = None) = (p = None)"
  by (cases p) (simp_all add: buildExifOptions_def)

section \<open>Properties of the loader\<close>

subsection \<open>Splitting a data URI\<close>

lemma splitString_not_Nil: "splitString s sep \<noteq> []"
  by (induction s) (auto split: list.splits)

lemma splitString_hd: "hd (splitString s sep) = takeWhile (\<lambda>c. c \<noteq> sep) s"
  by (induction s) (auto split: list.splits simp: splitString_not_Nil)

lemma splitString_no_sep: "sep \<notin> set s \<Longrightarrow> splitString s sep = [s]"
  by (induction s) auto

text \<open>
  The second piece of a split is what lies between the first separator and the next one
  (or the end of the string).
\<close>

lemma atIndex_splitString_1:
  "sep \<in> set s \<Longrightarrow>
   atIndex (splitString s sep) 1 =
     Some (takeWhile (\<lambda>c. c \<noteq> sep) (tl (dropWhile (\<lambda>c. c \<noteq> sep) s)))"
proof (induction s)
  case Nil
  then show ?case by simp
next
  case (Cons c cs)
  obtain piece pieces where sp: "splitString cs sep = piece # pieces"
    using splitString_not_Nil [of cs sep] by (cases "splitString cs sep") auto
  show ?case
  proof (cases "c = sep")
    case True
    have "piece = takeWhile (\<lambda>c. c \<noteq> sep) cs"
      using splitString_hd [of cs sep] sp by simp
    with True sp show ?thesis by (simp add: atIndex_def)
  next
    case False
    with Cons.prems have mem: "sep \<in> set cs" by simp
    from Cons.IH [OF mem] sp False show ?thesis
      by (simp add: atIndex_def split: if_splits)
  qed
qed

lemma dataUriPayload_comma:
  "CHR '','' \<in> set d \<Longrightarrow>
   dataUriPayload d = Some (takeWhile (\<lambda>c. c \<noteq> CHR '','') (afterFirstComma d))"
  unfolding dataUriPayload_def afterFirstComma_def by (rule atIndex_splitString_1)

lemma dataUriPayload_no_comma: "CHR '','' \<notin> set d \<Longrightarrow> dataUriPayload d = None"
  by (simp add: dataUriPayload_def splitString_no_sep atIndex_def)

subsection \<open>The catch block\<close>

lemma wrapLoadFailure_JsError:
  "wrapLoadFailure r = Inl (JsError m) \<longleftrightarrow>
   (\<exists>m0. r = Inl (JsError m0) \<and> m = ''Failed to load image: '' @ m0)"
  by (auto simp: wrapLoadFailure_def split: sum.splits js_exn.splits)

lemma startsWith_hd: "startsWith s p \<Longrightarrow> p \<noteq> [] \<Longrightarrow> s \<noteq> [] \<and> hd s = hd p"
  by (cases s; cases p) (auto simp: startsWith_def)

lemma replicate_A_not_data: "\<not> startsWith (replicate n (CHR ''A'')) ''data:''"
proof
  assume "startsWith (replicate n (CHR ''A'')) ''data:''"
  then have "replicate n (CHR ''A'') \<noteq> [] \<and> hd (replicate n (CHR ''A'')) = hd ''data:''"
    by (rule startsWith_hd) simp
  then show False by (cases n) simp_all
qed

subsection \<open>Inline base64 data\<close>

lemma loadImage_base64_within_limit:
  assumes "kind src = Base64" "data src = Some d" "d \<noteq> []" "length d \<le> 40000000"
  shows "loadImage rt src =
     wrapLoadFailure (if startsWith d ''data:'' then bufferFromBase64 rt (dataUriPayload d)
                      else bufferFromBase64 rt (Some d))"
  using assms by (simp add: loadImage_def loadImageBody_def)

text \<open>A data URI without any comma: \<^verbatim>\<open>split(',')[1]\<close> is \<^verbatim>\<open>undefined\<close>, and the load fails.\<close>

lemma loadImage_data_uri_without_comma:
  assumes "kind src = Base64" "data src = Some d" "d \<noteq> []" "length d \<le> 40000000"
    and "startsWith d ''data:''" "CHR '','' \<notin> set d"
  shows "loadImage rt src = wrapLoadFailure (Inl (bufferFromUndefined rt))"
  using assms
  by (simp add: loadImage_base64_within_limit dataUriPayload_no_comma bufferFromBase64_def)

lemma exampleRuntime_untagged:
  "(\<forall>p. readFile exampleRuntime p \<noteq> Inl (JsError payloadTooLarge)) \<and>
   (\<forall>u. fileURLToPath exampleRuntime u \<noteq> Inl (JsError payloadTooLarge)) \<and>
   (\<forall>u. fetch exampleRuntime u \<noteq> Inl (JsError payloadTooLarge)) \<and>
   (\<forall>u r. fetch exampleRuntime u = Inr r \<longrightarrow> arrayBuffer r \<noteq> Inl (JsError payloadTooLarge)) \<and>
   bufferFromUndefined exampleRuntime \<noteq> JsError payloadTooLarge"
  by (auto simp: exampleRuntime_def payloadTooLarge_def)

text \<open>
  C2: for a base64-tagged descriptor, a string of exactly 40,000,000 characters passes the
  size guard (the result is that of the decoding branch, and the decoded bytes when the
  string is not a data URI), and every string of more than 40,000,000 characters fails with
  the message \<^verbatim>\<open>Failed to load image: PayloadTooLarge: Base64 data exceeds 30MB limit\<close>.
  That message tells this failure from every other one: provided the platform itself
  (file system, URL conversion, fetch, body read, \<^verbatim>\<open>Buffer.from\<close>) throws no error with
  the text of the guard, a load fails with this message if and only if the descriptor is
  base64-tagged with more than 40,000,000 characters.
\<close>

theorem base64_size_guard:
  assumes "kind src = Base64" and "data src = Some s"
  shows "(length s = 40000000 \<longrightarrow>
            loadImage rt src =
              wrapLoadFailure (if startsWith s ''data:'' then bufferFromBase64 rt (dataUriPayload s)
                               else bufferFromBase64 rt (Some s))) \<and>
         (length s = 40000000 \<and> \<not> startsWith s ''data:'' \<longrightarrow>
            loadImage rt src = Inr (base64Decode rt s)) \<and>
         (length s > 40000000 \<longrightarrow>
            loadImage rt src = Inl (JsError (''Failed to load image: '' @ payloadTooLarge))) \<and>
         ((\<forall>p. readFile rt p \<noteq> Inl (JsError payloadTooLarge)) \<and>
          (\<forall>u. fileURLToPath rt u \<noteq> Inl (JsError payloadTooLarge)) \<and>
          (\<forall>u. fetch rt u \<noteq> Inl (JsError payloadTooLarge)) \<and>
          (\<forall>u r. fetch rt u = Inr r \<longrightarrow> arrayBuffer r \<noteq> Inl (JsError payloadTooLarge)) \<and>
          bufferFromUndefined rt \<noteq> JsError payloadTooLarge \<longrightarrow>
          (\<forall>other. loadImage rt other = Inl (JsError (''Failed to load image: '' @ payloadTooLarge)) \<longleftrightarrow>
             kind other = Base64 \<and> (\<exists>d. data other = Some d \<and> length d > 40000000)))"
proof (intro conjI impI allI)
  assume "length s = 40000000"
  then have "s \<noteq> []" "length s \<le> 40000000" by auto
  with assms show "loadImage rt src =
      wrapLoadFailure (if startsWith s ''data:'' then bufferFromBase64 rt (dataUriPayload s)
                       else bufferFromBase64 rt (Some s))"
    by (rule loadImage_base64_within_limit)
next
  assume "length s = 40000000 \<and> \<not> startsWith s ''data:''"
  then have "s \<noteq> []" "length s \<le> 40000000" "\<not> startsWith s ''data:''" by auto
  with assms show "loadImage rt src = Inr (base64Decode rt s)"
    by (simp add: loadImage_base64_within_limit bufferFromBase64_def wrapLoadFailure_def)
next
  assume "length s > 40000000"
  with assms show "loadImage rt src = Inl (JsError (''Failed to load image: '' @ payloadTooLarge))"
    by (auto simp: loadImage_def loadImageBody_def wrapLoadFailure_def)
next
  fix other
  assume rt: "(\<forall>p. readFile rt p \<noteq> Inl (JsError payloadTooLarge)) \<and>
          (\<forall>u. fileURLToPath rt u \<noteq> Inl (JsError payloadTooLarge)) \<and>
          (\<forall>u. fetch rt u \<noteq> Inl (JsError payloadTooLarge)) \<and>
          (\<forall>u r. fetch rt u = Inr r \<longrightarrow> arrayBuffer r \<noteq> Inl (JsError payloadTooLarge)) \<and>
          bufferFromUndefined rt \<noteq> JsError payloadTooLarge"
  have own: "pathRequired \<noteq> payloadTooLarge" "urlRequired \<noteq> payloadTooLarge"
    "dataRequired \<noteq> payloadTooLarge" "bufferRequired \<noteq> payloadTooLarge"
    "\<And>r. fetchFailed r \<noteq> payloadTooLarge"
    by (simp_all add: pathRequired_def urlRequired_def dataRequired_def bufferRequired_def
        fetchFailed_def payloadTooLarge_def)
  have body: "loadImageBody rt other = Inl (JsError payloadTooLarge) \<longleftrightarrow>
      kind other = Base64 \<and> (\<exists>d. data other = Some d \<and> length d > 40000000)"
  proof (cases "kind other")
    case Path
    with rt own show ?thesis
      by (auto simp: loadImageBody_def split: option.splits)
  next
    case Url
    with rt own show ?thesis
      by (auto simp: loadImageBody_def split: option.splits sum.splits)
  next
    case Base64
    with rt own show ?thesis
      by (auto simp: loadImageBody_def bufferFromBase64_def split: option.splits)
  next
    case Buffer
    with rt own show ?thesis
      by (auto simp: loadImageBody_def bufferFromBase64_def split: option.splits)
  qed
  show "loadImage rt other = Inl (JsError (''Failed to load image: '' @ payloadTooLarge)) \<longleftrightarrow>
      kind other = Base64 \<and> (\<exists>d. data other = Some d \<and> length d > 40000000)"
    unfolding loadImage_def wrapLoadFailure_JsError using body by simp
qed

theorem base64_size_guard_witness:
  "length (replicate 40000000 (CHR ''A'')) = 40000000 \<and>
   loadImage exampleRuntime
     \<lparr>kind = Base64, path = None, url = None, data = Some (replicate 40000000 (CHR ''A'')),
      buffer = None\<rparr> = Inr (base64Decode exampleRuntime (replicate 40000000 (CHR ''A''))) \<and>
   length (replicate 40000001 (CHR ''A'')) > 40000000 \<and>
   loadImage exampleRuntime
     \<lparr>kind = Base64, path = None, url = None, data = Some (replicate 40000001 (CHR ''A'')),
      buffer = None\<rparr> = Inl (JsError (''Failed to load image: '' @ payloadTooLarge)) \<and>
   loadImage exampleRuntime
     \<lparr>kind = Path, path = Some ''missing.jpg'', url = None, data = None, buffer = None\<rparr> \<noteq>
     Inl (JsError (''Failed to load image: '' @ payloadTooLarge))"
proof -
  let ?at = "\<lparr>kind = Base64, path = None, url = None,
      data = Some (replicate 40000000 (CHR ''A'')), buffer = None\<rparr>"
  let ?over = "\<lparr>kind = Base64, path = None, url = None,
      data = Some (replicate 40000001 (CHR ''A'')), buffer = None\<rparr>"
  let ?missing = "\<lparr>kind = Path, path = Some ''missing.jpg'', url = None, data = None,
      buffer = None\<rparr>"
  have len: "length (replicate 40000000 (CHR ''A'')) = 40000000"
    "length (replicate 40000001 (CHR ''A'')) > 40000000"
    by simp_all
  have at: "loadImage exampleRuntime ?at =
      Inr (base64Decode exampleRuntime (replicate 40000000 (CHR ''A'')))"
    using base64_size_guard [of ?at "replicate 40000000 (CHR ''A'')" exampleRuntime]
      len(1) replicate_A_not_data [of 40000000]
    by (simp add: bufferFromBase64_def wrapLoadFailure_def)
  have over: "loadImage exampleRuntime ?over =
      Inl (JsError (''Failed to load image: '' @ payloadTooLarge))"
    using base64_size_guard [of ?over "replicate 40000001 (CHR ''A'')" exampleRuntime] len(2)
    by simp
  have "loadImage exampleRuntime ?missing \<noteq>
      Inl (JsError (''Failed to load image: '' @ payloadTooLarge))"
    using base64_size_guard [of ?over "replicate 40000001 (CHR ''A'')" exampleRuntime]
      exampleRuntime_untagged
    by simp
  with len at over show ?thesis by simp
qed

text \<open>
  Within the limit, and for a string that is not a data URI, the \<^verbatim>\<open>buffer\<close> and the
  \<^verbatim>\<open>base64\<close> tags load the same bytes.
\<close>

lemma buffer_like_base64_within_limit:
  assumes "\<not> startsWith s ''data:''" and "s \<noteq> []" and "length s \<le> 40000000"
  shows "loadImage rt \<lparr>kind = Buffer, path = p, url = u, data = d, buffer = Some s\<rparr> =
         loadImage rt \<lparr>kind = Base64, path = p', url = u', data = Some s, buffer = b'\<rparr>"
  using assms by (simp add: loadImage_def loadImageBody_def)

text \<open>
  C3: the claim is that for every string \<open>s\<close> not beginning with \<^verbatim>\<open>data:\<close> the descriptors
  \<^verbatim>\<open>{kind:'buffer', buffer:s}\<close> and \<^verbatim>\<open>{kind:'base64', data:s}\<close> resolve alike. The
  \<^verbatim>\<open>buffer\<close> branch has no size guard: at the string of 40,000,001 letters \<^verbatim>\<open>A\<close>, which
  does not begin with \<^verbatim>\<open>data:\<close>, the \<^verbatim>\<open>buffer\<close> descriptor is decoded and the
  \<^verbatim>\<open>base64\<close> descriptor fails as too large.
\<close>

theorem buffer_has_no_size_guard:
  "\<not> startsWith (replicate 40000001 (CHR ''A'')) ''data:'' \<and>
   loadImage rt
     \<lparr>kind = Buffer, path = None, url = None, data = None,
      buffer = Some (replicate 40000001 (CHR ''A''))\<rparr> =
     Inr (base64Decode rt (replicate 40000001 (CHR ''A''))) \<and>
   loadImage rt
     \<lparr>kind = Base64, path = None, url = None, data = Some (replicate 40000001 (CHR ''A'')),
      buffer = None\<rparr> =
     Inl (JsError (''Failed to load image: '' @ payloadTooLarge))"
  by (simp add: replicate_A_not_data loadImage_def loadImageBody_def wrapLoadFailure_def
      bufferFromBase64_def)

text \<open>
  C4, as the claim states it, fails: for a data URI the code decodes \<^verbatim>\<open>split(',')[1]\<close>,
  the piece between the first comma and the second, not everything after the first comma.
  At \<^verbatim>\<open>data:x,AA,BB\<close> the decoder receives \<^verbatim>\<open>AA\<close>, not \<^verbatim>\<open>AA,BB\<close>.
\<close>

theorem base64_data_uri_second_comma_counterexample:
  "startsWith ''data:x,AA,BB'' ''data:'' \<and>
   afterFirstComma ''data:x,AA,BB'' = ''AA,BB'' \<and>
   dataUriPayload ''data:x,AA,BB'' = Some ''AA'' \<and>
   loadImage exampleRuntime
     \<lparr>kind = Base64, path = None, url = None, data = Some ''data:x,AA,BB'', buffer = None\<rparr> =
     Inr (base64Decode exampleRuntime ''AA'') \<and>
   loadImage exampleRuntime
     \<lparr>kind = Base64, path = None, url = None, data = Some ''data:x,AA,BB'', buffer = None\<rparr> \<noteq>
     Inr (base64Decode exampleRuntime (afterFirstComma ''data:x,AA,BB''))"
  by (simp add: startsWith_def afterFirstComma_def dataUriPayload_def atIndex_def
      loadImage_def loadImageBody_def wrapLoadFailure_def bufferFromBase64_def exampleRuntime_def)

text \<open>
  C4, amended: for a base64-tagged descriptor with a non-empty string within the size limit,
  if the string begins with \<^verbatim>\<open>data:\<close> and has a comma, resolution decodes the part of the
  substring after the first comma that precedes the next comma, which is the whole
  substring after the first comma when that has no further comma (a base64 payload has
  none); if the string does not begin with \<^verbatim>\<open>data:\<close>, resolution decodes the entire
  string.
\<close>

theorem base64_data_uri_decoding:
  assumes "kind src = Base64" and "data src = Some d" and "d \<noteq> []"
    and "length d \<le> 40000000"
  shows "(startsWith d ''data:'' \<and> CHR '','' \<in> set d \<longrightarrow>
            loadImage rt src =
              Inr (base64Decode rt (takeWhile (\<lambda>c. c \<noteq> CHR '','') (afterFirstComma d)))) \<and>
         (startsWith d ''data:'' \<and> CHR '','' \<in> set d \<and> CHR '','' \<notin> set (afterFirstComma d) \<longrightarrow>
            loadImage rt src = Inr (base64Decode rt (afterFirstComma d))) \<and>
         (\<not> startsWith d ''data:'' \<longrightarrow> loadImage rt src = Inr (base64Decode rt d))"
proof -
  note step = loadImage_base64_within_limit [OF assms, of rt]
  have a: "loadImage rt src =
      Inr (base64Decode rt (takeWhile (\<lambda>c. c \<noteq> CHR '','') (afterFirstComma d)))"
    if "startsWith d ''data:''" "CHR '','' \<in> set d"
    using that step by (simp add: dataUriPayload_comma bufferFromBase64_def wrapLoadFailure_def)
  have b: "takeWhile (\<lambda>c. c \<noteq> CHR '','') (afterFirstComma d) = afterFirstComma d"
    if "CHR '','' \<notin> set (afterFirstComma d)"
    using that by (intro takeWhile_eq_all_conv [THEN iffD2]) auto
  have c: "loadImage rt src = Inr (base64Decode rt d)" if "\<not> startsWith d ''data:''"
    using that step by (simp add: bufferFromBase64_def wrapLoadFailure_def)
  from a b c show ?thesis by metis
qed

theorem base64_data_uri_decoding_witness:
  "loadImage exampleRuntime
     \<lparr>kind = Base64, path = None, url = None, data = Some ''data:image/jpeg;base64,AQID'',
      buffer = None\<rparr> = Inr (base64Decode exampleRuntime ''AQID'') \<and>
   loadImage exampleRuntime
     \<lparr>kind = Base64, path = None, url = None, data = Some ''AQID'', buffer = None\<rparr> =
     Inr (base64Decode exampleRuntime ''AQID'')"
proof -
  let ?u = "\<lparr>kind = Base64, path = None, url = None, data = Some ''data:image/jpeg;base64,AQID'',
      buffer = None\<rparr>"
  let ?r = "\<lparr>kind = Base64, path = None, url = None, data = Some ''AQID'', buffer = None\<rparr>"
  have u: "startsWith ''data:image/jpeg;base64,AQID'' ''data:'' \<and>
           CHR '','' \<in> set ''data:image/jpeg;base64,AQID'' \<and>
           CHR '','' \<notin> set (afterFirstComma ''data:image/jpeg;base64,AQID'')"
    by (simp add: startsWith_def afterFirstComma_def)
  have r: "\<not> startsWith ''AQID'' ''data:''"
    by (simp add: startsWith_def)
  have "loadImage exampleRuntime ?u =
      Inr (base64Decode exampleRuntime (afterFirstComma ''data:image/jpeg;base64,AQID''))"
    using base64_data_uri_decoding [of ?u "''data:image/jpeg;base64,AQID''" exampleRuntime] u
    by force
  moreover have "loadImage exampleRuntime ?r = Inr (base64Decode exampleRuntime ''AQID'')"
    using base64_data_uri_decoding [of ?r "''AQID''" exampleRuntime] r
    by force
  ultimately show ?thesis
    by (simp add: afterFirstComma_def)
qed

subsection \<open>Failures\<close>

text \<open>
  C8: for a url-tagged descriptor whose URL does not begin with \<^verbatim>\<open>file://\<close>, when the
  fetch resolves to a response that is not ok, resolution fails with an error whose message
  is \<^verbatim>\<open>Failed to load image: Failed to fetch URL: \<close> followed by the decimal status code, a
  space and the status text as it is; and whatever descriptor the resolver is given, an
  error thrown inside it comes out with the prefix \<^verbatim>\<open>Failed to load image: \<close> put before
  its unchanged message.
\<close>

theorem fetch_not_ok_message:
  assumes "kind src = Url" and "url src = Some u" and "u \<noteq> []"
    and "\<not> startsWith u ''file://''"
    and "fetch rt u = Inr response" and "\<not> ok response"
  shows "loadImage rt src =
           Inl (JsError (''Failed to load image: '' @ ''Failed to fetch URL: '' @
                  number_toString (status response) @ '' '' @ statusText response)) \<and>
         (\<forall>other m. loadImageBody rt other = Inl (JsError m) \<longrightarrow>
              loadImage rt other = Inl (JsError (''Failed to load image: '' @ m))) \<and>
         (\<forall>other m. loadImage rt other = Inl (JsError m) \<longrightarrow>
              (\<exists>m0. m = ''Failed to load image: '' @ m0 \<and>
                    loadImageBody rt other = Inl (JsError m0)))"
proof (intro conjI allI impI)
  from assms show "loadImage rt src =
      Inl (JsError (''Failed to load image: '' @ ''Failed to fetch URL: '' @
             number_toString (status response) @ '' '' @ statusText response))"
    by (simp add: loadImage_def loadImageBody_def wrapLoadFailure_def fetchFailed_def)
next
  fix other m
  assume "loadImageBody rt other = Inl (JsError m)"
  then show "loadImage rt other = Inl (JsError (''Failed to load image: '' @ m))"
    by (simp add: loadImage_def wrapLoadFailure_def)
next
  fix other m
  assume "loadImage rt other = Inl (JsError m)"
  then show "\<exists>m0. m = ''Failed to load image: '' @ m0 \<and>
      loadImageBody rt other = Inl (JsError m0)"
    unfolding loadImage_def wrapLoadFailure_JsError by blast
qed

theorem fetch_not_ok_message_witness:
  "loadImage exampleRuntime
     \<lparr>kind = Url, path = None, url = Some ''https://example.com/not-found.jpg'', data = None,
      buffer = None\<rparr> =
   Inl (JsError ''Failed to load image: Failed to fetch URL: 404 Not Found'')"
proof -
  let ?src = "\<lparr>kind = Url, path = None, url = Some ''https://example.com/not-found.jpg'',
      data = None, buffer = None\<rparr>"
  let ?resp = "\<lparr>ok = False, status = 404, statusText = ''Not Found'', arrayBuffer = Inr []\<rparr>"
  have f: "fetch exampleRuntime ''https://example.com/not-found.jpg'' = Inr ?resp"
    by (simp add: exampleRuntime_def)
  have n: "\<not> startsWith ''https://example.com/not-found.jpg'' ''file://''"
    by (simp add: startsWith_def)
  have s: "number_toString 404 = ''404''"
    by code_simp
  from fetch_not_ok_message [of ?src "''https://example.com/not-found.jpg''" exampleRuntime ?resp]
    f n s
  show ?thesis by simp
qed

text \<open>
  C9: a descriptor whose field for its tag is the empty string fails as one whose field is
  absent does, with the \<^verbatim>\<open>... is required ...\<close> error of that tag, whatever the platform
  functions are: nothing is read, fetched or decoded.
\<close>

theorem empty_payload_is_missing:
  "(kind src = Path \<and> (path src = None \<or> path src = Some []) \<longrightarrow>
      loadImage rt src = Inl (JsError (''Failed to load image: '' @ pathRequired))) \<and>
   (kind src = Url \<and> (url src = None \<or> url src = Some []) \<longrightarrow>
      loadImage rt src = Inl (JsError (''Failed to load image: '' @ urlRequired))) \<and>
   (kind src = Base64 \<and> (data src = None \<or> data src = Some []) \<longrightarrow>
      loadImage rt src = Inl (JsError (''Failed to load image: '' @ dataRequired))) \<and>
   (kind src = Buffer \<and> (buffer src = None \<or> buffer src = Some []) \<longrightarrow>
      loadImage rt src = Inl (JsError (''Failed to load image: '' @ bufferRequired)))"
  by (auto simp: loadImage_def loadImageBody_def wrapLoadFailure_def)

theorem empty_payload_is_missing_witness:
  \<open>loadImage exampleRuntime \<lparr>kind = Path, path = Some '''', url = None, data = None, buffer = None\<rparr> =
     Inl (JsError ''Failed to load image: Path is required for kind="path"'') \<and>
   loadImage exampleRuntime \<lparr>kind = Url, path = None, url = Some '''', data = None, buffer = None\<rparr> =
     Inl (JsError ''Failed to load image: URL is required for kind="url"'') \<and>
   loadImage exampleRuntime \<lparr>kind = Base64, path = None, url = None, data = Some '''', buffer = None\<rparr> =
     Inl (JsError ''Failed to load image: Data is required for kind="base64"'') \<and>
   loadImage exampleRuntime \<lparr>kind = Buffer, path = None, url = None, data = None, buffer = Some ''''\<rparr> =
     Inl (JsError ''Failed to load image: Buffer is required for kind="buffer"'')\<close>
proof -
  note inst = empty_payload_is_missing [of _ exampleRuntime]
  show ?thesis
    using
      inst [of "\<lparr>kind = Path, path = Some '''', url = None, data = None, buffer = None\<rparr>"]
      inst [of "\<lparr>kind = Url, path = None, url = Some '''', data = None, buffer = None\<rparr>"]
      inst [of "\<lparr>kind = Base64, path = None, url = None, data = Some '''', buffer = None\<rparr>"]
      inst [of "\<lparr>kind = Buffer, path = None, url = None, data = None, buffer = Some ''''\<rparr>"]
    by (simp add: pathRequired_def urlRequired_def dataRequired_def bufferRequired_def)
qed

section \<open>Properties of the tools\<close>

lemma catchAs_loaded:
  "loadImage rt img = Inr buf \<Longrightarrow> call buf = Inr v \<Longrightarrow>
   catchAs pre (bindResult (loadImage rt img) (\<lambda>b. bindResult (call b) (\<lambda>x. Inr (decide x)))) =
   decide v"
  by (simp add: catchAs_def bindResult_def)

text \<open>A parser result with at least one key is returned as the payload of a success response.\<close>

lemma readMetadataTool_found:
  assumes "loadImage (runtime env) img = Inr buf"
    and "parse (exifr env) buf (buildOptions segments) = Inr meta"
    and "truthy meta" and "objectKeys meta \<noteq> []"
  shows "readMetadataTool env img segments = createSuccessResponse (JSON_stringify env) meta"
  using assms unfolding readMetadataTool_def by (subst catchAs_loaded) auto

lemma sampleImage_loads:
  "loadImage exampleRuntime sampleImage = Inr [0xFF, 0xD8, 0xFF, 0xD9]"
  by (simp add: exampleRuntime_def sampleImage_def loadImage_def loadImageBody_def
      wrapLoadFailure_def)

lemma exampleEnv_loads:
  "loadImage (runtime exampleEnv) sampleImage = Inr [0xFF, 0xD8, 0xFF, 0xD9]"
  by (simp add: exampleEnv_def sampleImage_loads)

text \<open>
  C1, as the claim states it, fails: when the parser's \<^verbatim>\<open>gps\<close> query returns
  \<^verbatim>\<open>null\<close>, the \<^verbatim>\<open>gps-coordinates\<close> tool answers with a success response whose payload
  is \<^verbatim>\<open>null\<close>, not with a failure.
\<close>

theorem gps_null_is_success_counterexample:
  "loadImage (runtime exampleEnv) sampleImage = Inr [0xFF, 0xD8, 0xFF, 0xD9] \<and>
   gps (exifr exampleEnv) [0xFF, 0xD8, 0xFF, 0xD9] = Inr JNull \<and>
   gpsCoordinatesTool exampleEnv sampleImage = \<lparr>content_text = ''null'', isError = None\<rparr> \<and>
   isError (gpsCoordinatesTool exampleEnv sampleImage) \<noteq> Some True"
  by (simp add: gpsCoordinatesTool_def catchAs_def bindResult_def sampleImage_loads
      createSuccessResponse_def exampleEnv_def exampleExifr_def)

text \<open>
  C1, amended: once the image is loaded, every tool other than \<^verbatim>\<open>gps-coordinates\<close>
  answers an absent or empty parser result with a failure response carrying a
  \<^verbatim>\<open>No ... found in image\<close> message: \<^verbatim>\<open>read-metadata\<close> and \<^verbatim>\<open>read-exif\<close> for a
  falsy result or one without keys, \<^verbatim>\<open>read-xmp\<close> and the four segment tools for a falsy
  result or one whose segment key is missing or falsy, \<^verbatim>\<open>orientation\<close> for
  \<^verbatim>\<open>undefined\<close>, \<^verbatim>\<open>rotation-info\<close> for a falsy result, \<^verbatim>\<open>thumbnail\<close> for
  \<^verbatim>\<open>undefined\<close>. \<^verbatim>\<open>gps-coordinates\<close> answers a falsy result with a success response
  whose payload is \<^verbatim>\<open>null\<close>.
\<close>

theorem empty_results_reported_except_gps:
  assumes "loadImage (runtime env) img = Inr buf"
  shows "(\<forall>meta. parse (exifr env) buf (buildOptions segments) = Inr meta \<and>
            (\<not> truthy meta \<or> objectKeys meta = []) \<longrightarrow>
            readMetadataTool env img segments =
              createErrorResponse ''No metadata found in image'') \<and>
         (\<forall>meta. parse (exifr env) buf (buildExifOptions tags) = Inr meta \<and>
            (\<not> truthy meta \<or> objectKeys meta = []) \<longrightarrow>
            readExifTool env img tags =
              createErrorResponse ''No EXIF metadata found in image'') \<and>
         (\<forall>meta. parse (exifr env) buf (buildXmpOptions extended) = Inr meta \<and>
            (\<not> truthy meta \<or> \<not> truthy (getProperty meta ''xmp'')) \<longrightarrow>
            readXmpTool env img extended =
              createErrorResponse ''No XMP metadata found in image'') \<and>
         (\<forall>meta. parse (exifr env) buf (buildSegmentOptions segment) = Inr meta \<and>
            (\<not> truthy meta \<or> \<not> truthy (getProperty meta (toLowerCase (segmentName segment)))) \<longrightarrow>
            segmentTool env segment img =
              createErrorResponse (''No '' @ segmentName segment @ '' metadata found in image'')) \<and>
         (orientation (exifr env) buf = Inr JUndefined \<longrightarrow>
            orientationTool env img =
              createErrorResponse ''No orientation metadata found in image'') \<and>
         (\<forall>v. rotation (exifr env) buf = Inr v \<and> \<not> truthy v \<longrightarrow>
            rotationInfoTool env img =
              createErrorResponse ''No rotation metadata found in image'') \<and>
         (thumbnail (exifr env) buf = Inr None \<longrightarrow>
            thumbnailTool env img asUrl = createErrorResponse ''No thumbnail found in image'') \<and>
         (\<forall>v. gps (exifr env) buf = Inr v \<and> \<not> truthy v \<longrightarrow>
            gpsCoordinatesTool env img = createSuccessResponse (JSON_stringify env) JNull \<and>
            isError (gpsCoordinatesTool env img) = None)"
proof (intro conjI allI impI)
  fix meta
  assume "parse (exifr env) buf (buildOptions segments) = Inr meta \<and>
    (\<not> truthy meta \<or> objectKeys meta = [])"
  with assms show "readMetadataTool env img segments =
      createErrorResponse ''No metadata found in image''"
    unfolding readMetadataTool_def by (subst catchAs_loaded) auto
next
  fix meta
  assume "parse (exifr env) buf (buildExifOptions tags) = Inr meta \<and>
    (\<not> truthy meta \<or> objectKeys meta = [])"
  with assms show "readExifTool env img tags =
      createErrorResponse ''No EXIF metadata found in image''"
    unfolding readExifTool_def by (subst catchAs_loaded) auto
next
  fix meta
  assume "parse (exifr env) buf (buildXmpOptions extended) = Inr meta \<and>
    (\<not> truthy meta \<or> \<not> truthy (getProperty meta ''xmp''))"
  with assms show "readXmpTool env img extended =
      createErrorResponse ''No XMP metadata found in image''"
    unfolding readXmpTool_def by (subst catchAs_loaded) auto
next
  fix meta
  assume "parse (exifr env) buf (buildSegmentOptions segment) = Inr meta \<and>
    (\<not> truthy meta \<or> \<not> truthy (getProperty meta (toLowerCase (segmentName segment))))"
  with assms show "segmentTool env segment img =
      createErrorResponse (''No '' @ segmentName segment @ '' metadata found in image'')"
    unfolding segmentTool_def Let_def by (subst catchAs_loaded) auto
next
  assume "orientation (exifr env) buf = Inr JUndefined"
  with assms show "orientationTool env img =
      createErrorResponse ''No orientation metadata found in image''"
    unfolding orientationTool_def by (subst catchAs_loaded) auto
next
  fix v
  assume "rotation (exifr env) buf = Inr v \<and> \<not> truthy v"
  with assms show "rotationInfoTool env img =
      createErrorResponse ''No rotation metadata found in image''"
    unfolding rotationInfoTool_def by (subst catchAs_loaded) auto
next
  assume "thumbnail (exifr env) buf = Inr None"
  with assms show "thumbnailTool env img asUrl =
      createErrorResponse ''No thumbnail found in image''"
    unfolding thumbnailTool_def by (subst catchAs_loaded) auto
next
  fix v
  assume "gps (exifr env) buf = Inr v \<and> \<not> truthy v"
  with assms show g: "gpsCoordinatesTool env img = createSuccessResponse (JSON_stringify env) JNull"
    unfolding gpsCoordinatesTool_def by (subst catchAs_loaded) auto
  then show "isError (gpsCoordinatesTool env img) = None"
    by (simp add: createSuccessResponse_def)
qed

theorem empty_results_reported_except_gps_witness:
  "loadImage (runtime exampleEnv) sampleImage = Inr [0xFF, 0xD8, 0xFF, 0xD9] \<and>
   readMetadataTool exampleEnv sampleImage None =
     \<lparr>content_text = ''No metadata found in image'', isError = Some True\<rparr> \<and>
   readExifTool exampleEnv sampleImage (Some [''Make'']) =
     \<lparr>content_text = ''No EXIF metadata found in image'', isError = Some True\<rparr> \<and>
   readXmpTool exampleEnv sampleImage None =
     \<lparr>content_text = ''No XMP metadata found in image'', isError = Some True\<rparr> \<and>
   segmentTool exampleEnv OnlyICC sampleImage =
     \<lparr>content_text = ''No ICC metadata found in image'', isError = Some True\<rparr> \<and>
   orientationTool exampleEnv sampleImage =
     \<lparr>content_text = ''No orientation metadata found in image'', isError = Some True\<rparr> \<and>
   rotationInfoTool exampleEnv sampleImage =
     \<lparr>content_text = ''No rotation metadata found in image'', isError = Some True\<rparr> \<and>
   thumbnailTool exampleEnv sampleImage None =
     \<lparr>content_text = ''No thumbnail found in image'', isError = Some True\<rparr> \<and>
   gpsCoordinatesTool exampleEnv sampleImage = \<lparr>content_text = ''null'', isError = None\<rparr>"
proof -
  have ex: "exifr exampleEnv = exampleExifr"
    by (simp add: exampleEnv_def)
  have p: "parse exampleExifr b opts = Inr (JObject [])"
    "orientation exampleExifr b = Inr JUndefined"
    "rotation exampleExifr b = Inr JUndefined"
    "thumbnail exampleExifr b = Inr None"
    "gps exampleExifr b = Inr JNull" for b opts
    by (simp_all add: exampleExifr_def)
  have s: "JSON_stringify exampleEnv JNull = ''null''"
    by (simp add: exampleEnv_def)
  note inst = empty_results_reported_except_gps [OF exampleEnv_loads, unfolded ex p,
      of None "Some [''Make'']" None OnlyICC None]
  from inst exampleEnv_loads s show ?thesis
    by (simp add: createErrorResponse_def createSuccessResponse_def)
qed

end
